theory Spec2Isabelle
  imports Main
begin

section \<open>Python strings\<close>

text \<open>
  Python strings are modelled as \<open>string\<close>. The two string operations that
  \<^verbatim>\<open>databricks/koalas/__init__.py\<close> uses are \<^verbatim>\<open>str.lower()\<close> and the ordering
  \<^verbatim>\<open><\<close> on \<^verbatim>\<open>str\<close>.

  \<^verbatim>\<open>str.lower()\<close> maps the letters A..Z to a..z. Every other character is left as it
  is; the strings that the code compares the result with consist of the characters
  of \<^verbatim>\<open>true\<close>, \<^verbatim>\<open>1\<close> and \<^verbatim>\<open>enabled\<close> only, and no character outside A..Z lower-cases
  to one of those.
\<close>

definition lower_char :: "char \<Rightarrow> char" where
  "lower_char c =
     (let n = (of_char c :: nat)
      in if 65 \<le> n \<and> n \<le> 90 then char_of (n + 32) else c)"

definition str_lower :: "string \<Rightarrow> string" where
  "str_lower s = map lower_char s"

text \<open>
  \<^verbatim>\<open>a < b\<close> on Python strings compares code points from the left; a proper prefix is
  smaller.
\<close>

fun str_lt :: "string \<Rightarrow> string \<Rightarrow> bool" where
  "str_lt [] [] = False"
| "str_lt [] (y # ys) = True"
| "str_lt (x # xs) [] = False"
| "str_lt (x # xs) (y # ys) =
     (if (of_char x :: nat) < of_char y then True
      else if (of_char y :: nat) < of_char x then False
      else str_lt xs ys)"


section \<open>The interpreter state touched by the package bootstrap\<close>

text \<open>
  The bootstrap has three effects: records sent to \<^verbatim>\<open>logging\<close>, the attachment of a
  usage logger, and the assignment
  \<^verbatim>\<open>df.DataFrame.to_koalas = DataFrame.to_koalas\<close> on the class
  \<^verbatim>\<open>pyspark.sql.dataframe.DataFrame\<close>. The state records each of them.
\<close>

datatype log_level = INFO | WARNING

type_synonym log_record = "string \<times> log_level \<times> string"
  \<comment> \<open>logger name (\<open>''root''\<close> for \<^verbatim>\<open>logging.warning\<close>), level, message\<close>

record py_state =
  log_records :: "log_record list"
  usage_logger :: "string option"
  spark_df_to_koalas :: bool

definition emit :: "string \<Rightarrow> log_level \<Rightarrow> string \<Rightarrow> py_state \<Rightarrow> py_state" where
  "emit name lvl msg st = st\<lparr>log_records := log_records st @ [(name, lvl, msg)]\<rparr>"

datatype py_exception = ImportError string | AttributeError string


section \<open>assert_pyspark_version\<close>

text \<open>
  \<^verbatim>\<open>
  def assert_pyspark_version():
      import logging
      pyspark_ver = None
      try:
          import pyspark
      except ImportError:
          raise ImportError('Unable to import pyspark - consider doing a pip install with [spark] '
                            'extra to install pyspark with pip')
      else:
          pyspark_ver = getattr(pyspark, '__version__')
          if pyspark_ver is None or pyspark_ver < '2.4':
              logging.warning(
                  'Found pyspark version "{}" installed. pyspark>=2.4.0 is recommended.'
                  .format(pyspark_ver if pyspark_ver is not None else '<unknown version>'))
  \<close>
  The function's input is what \<^verbatim>\<open>import pyspark\<close> finds: no importable package, or a
  module. \<^verbatim>\<open>getattr\<close> is called with two arguments, so a module that has no
  attribute \<^verbatim>\<open>__version__\<close> makes it raise \<^verbatim>\<open>AttributeError\<close>; otherwise the attribute
  is \<^verbatim>\<open>None\<close> or a string.
\<close>

datatype version_attr = NoAttr | AttrNone | AttrStr string

datatype pyspark_import = Unimportable | Module version_attr

definition import_error_message :: string where
  "import_error_message =
     ''Unable to import pyspark - consider doing a pip install with [spark] '' @
     ''extra to install pyspark with pip''"

definition version_warning :: "string \<Rightarrow> string" where
  "version_warning v =
     ''Found pyspark version '' @ [CHR 0x22] @ v @ [CHR 0x22] @
     '' installed. pyspark>=2.4.0 is recommended.''"

definition assert_pyspark_version :: "pyspark_import \<Rightarrow> py_state \<Rightarrow> py_exception + py_state" where
  "assert_pyspark_version py st =
     (case py of
        Unimportable \<Rightarrow> Inl (ImportError import_error_message)
      | Module attr \<Rightarrow>
          (case attr of
             NoAttr \<Rightarrow> Inl (AttributeError ''__version__'')
           | AttrNone \<Rightarrow> Inr (emit ''root'' WARNING (version_warning ''<unknown version>'') st)
           | AttrStr v \<Rightarrow>
               if str_lt v ''2.4''
               then Inr (emit ''root'' WARNING (version_warning v) st)
               else Inr st))"


section \<open>_auto_patch\<close>

text \<open>
  \<^verbatim>\<open>
  def _auto_patch():
      import os
      import logging

      # Attach a usage logger.
      logger_module = os.getenv("KOALAS_USAGE_LOGGER", None)
      if logger_module is not None:
          try:
              from databricks.koalas import usage_logging
              usage_logging.attach(logger_module)
          except Exception as e:
              from pyspark.util import _exception_message
              logger = logging.getLogger('databricks.koalas.usage_logger')
              logger.warning('Tried to attach usage logger `{}`, but an exception was raised: {}'
                             .format(logger_module, _exception_message(e)))

      # Autopatching is on by default.
      x = os.getenv("SPARK_KOALAS_AUTOPATCH", "true")
      if x.lower() in ("true", "1", "enabled"):
          logger = logging.getLogger('spark')
          logger.info("Patching spark automatically. You can disable it by setting "
                      "SPARK_KOALAS_AUTOPATCH=false in your environment")

          from pyspark.sql import dataframe as df
          df.DataFrame.to_koalas = DataFrame.to_koalas
  \<close>
  The environment is a map from variable names to values. \<^verbatim>\<open>usage_logging.attach\<close>
  belongs to a module that is not part of the sources at hand; it is a parameter
  \<open>attach\<close> that, given the module name, either succeeds (\<open>None\<close>) or raises an
  \<^verbatim>\<open>Exception\<close> with a message (\<open>Some msg\<close>), which the handler turns into a warning.
\<close>

type_synonym environ = "string \<rightharpoonup> string"

definition getenv :: "environ \<Rightarrow> string \<Rightarrow> string \<Rightarrow> string" where
  "getenv env name dflt = (case env name of None \<Rightarrow> dflt | Some v \<Rightarrow> v)"

definition attach_warning :: "string \<Rightarrow> string \<Rightarrow> string" where
  "attach_warning logger_module msg =
     ''Tried to attach usage logger `'' @ logger_module @
     ''`, but an exception was raised: '' @ msg"

definition patch_info :: string where
  "patch_info =
     ''Patching spark automatically. You can disable it by setting '' @
     ''SPARK_KOALAS_AUTOPATCH=false in your environment''"

definition attach_usage_logger ::
  "environ \<Rightarrow> (string \<Rightarrow> string option) \<Rightarrow> py_state \<Rightarrow> py_state" where
  "attach_usage_logger env attach st =
     (case env ''KOALAS_USAGE_LOGGER'' of
        None \<Rightarrow> st
      | Some logger_module \<Rightarrow>
          (case attach logger_module of
             None \<Rightarrow> st\<lparr>usage_logger := Some logger_module\<rparr>
           | Some msg \<Rightarrow>
               emit ''databricks.koalas.usage_logger'' WARNING
                 (attach_warning logger_module msg) st))"

definition auto_patch ::
  "environ \<Rightarrow> (string \<Rightarrow> string option) \<Rightarrow> py_state \<Rightarrow> py_state" where
  "auto_patch env attach st =
     (let st1 = attach_usage_logger env attach st;
          x = getenv env ''SPARK_KOALAS_AUTOPATCH'' ''true''
      in if str_lower x \<in> set [''true'', ''1'', ''enabled'']
         then (emit ''spark'' INFO patch_info st1)\<lparr>spark_df_to_koalas := True\<rparr>
         else st1)"

text \<open>
  The module body runs \<^verbatim>\<open>assert_pyspark_version()\<close>, then \<^verbatim>\<open>_auto_patch()\<close>; an
  exception of the first ends the import. (The imports of the package's other
  modules between and after the two calls are taken to succeed.)
\<close>

definition fresh_state :: py_state where
  "fresh_state = \<lparr>log_records = [], usage_logger = None, spark_df_to_koalas = False\<rparr>"

definition import_koalas ::
  "environ \<Rightarrow> pyspark_import \<Rightarrow> (string \<Rightarrow> string option) \<Rightarrow> py_exception + py_state" where
  "import_koalas env py attach =
     (case assert_pyspark_version py fresh_state of
        Inl e \<Rightarrow> Inl e
      | Inr st \<Rightarrow> Inr (auto_patch env attach st))"


section \<open>read_csv: validation of the arguments\<close>

text \<open>
  \<^verbatim>\<open>__init__.py\<close> exports \<^verbatim>\<open>read_csv\<close> from \<^verbatim>\<open>databricks.koalas.namespace\<close>, and
  \<^verbatim>\<open>tests/test_csv.py\<close> calls it; the module that defines it is not among the
  sources. Its validation of the arguments is therefore modelled from sections 4, 6
  and 7 of the specification, with the calls and expected errors of
  \<^verbatim>\<open>tests/test_csv.py\<close> as the fixed points.
\<close>

text \<open>
  Modelled from the spec: the argument values that \<^verbatim>\<open>read_csv\<close> (missing) receives. The
  tests pass strings, integers and lists (\<^verbatim>\<open>comment=1\<close>, \<^verbatim>\<open>comment=[1]\<close>, \<^verbatim>\<open>header='1'\<close>,
  \<^verbatim>\<open>usecols=[1, 'amount']\<close>), so an argument is a Python value of one of these
  shapes; \<open>None\<close> on the HOL side is Python's \<^verbatim>\<open>None\<close>.
\<close>

datatype py_value = PyStr string | PyInt int | PyList "py_value list"

text \<open>
  Modelled from the spec: the arguments of a call of \<^verbatim>\<open>read_csv\<close> (missing) that
  section 4 names as the input of the validation (header specifier, column-name list,
  column-selection list, comment marker), the path, and the two unsupported legacy
  options of section 6. The names are a list here; the schema string that
  \<^verbatim>\<open>test_read_with_spark_schema\<close> passes as \<^verbatim>\<open>names\<close> goes to the engine and is
  not part of this validation.
\<close>

record csv_args =
  path :: string
  header :: "py_value option"
  names :: "string list option"
  usecols :: "py_value list option"
  comment :: "py_value option"
  mangle_dupe_cols :: bool
  parse_dates :: bool

text \<open>
  Modelled from the spec: the default arguments of \<^verbatim>\<open>read_csv\<close> (missing), as the local
  function \<^verbatim>\<open>check\<close> of \<^verbatim>\<open>test_read_csv\<close> has them (\<^verbatim>\<open>header='infer'\<close>, \<^verbatim>\<open>names=None\<close>,
  \<^verbatim>\<open>usecols=None\<close>); the non-default values of the legacy options are
  \<^verbatim>\<open>mangle_dupe_cols=False\<close> and \<^verbatim>\<open>parse_dates=True\<close>.
\<close>

definition default_args :: "string \<Rightarrow> csv_args" where
  "default_args p =
     \<lparr>path = p, header = Some (PyStr ''infer''), names = None, usecols = None,
      comment = None, mangle_dupe_cols = True, parse_dates = False\<rparr>"

text \<open>
  Modelled from the spec: the violated constraint that the message of a validation
  error of \<^verbatim>\<open>read_csv\<close> (missing) identifies: section 7 lists uniqueness, count
  mismatch, unknown-column reference, unsupported option and malformed comment
  marker; the tests add the unknown header argument and the selection list of mixed
  types. The data a message names is the constructor's argument: the option's name,
  the number of names supplied and the number of columns detected, the references
  that were not found.
\<close>

datatype constraint =
    UnsupportedOption string
  | UnknownHeader py_value
  | CommentLength
  | NonUniqueNames
  | UsecolsTypes
  | NamesCount nat nat
  | UsecolsMissing "py_value list"

text \<open>
  Modelled from the spec: the ways a call of \<^verbatim>\<open>read_csv\<close> (missing) fails: the single
  kind of client-side validation error of section 7, and a failure of the external
  engine, surfaced verbatim.
\<close>

datatype csv_error = ValueError constraint | EngineError string

text \<open>
  Modelled from the spec: the header modes of section 4 (\<^verbatim>\<open>"infer"\<close>, absent, an
  explicit row index) and the configuration object that \<^verbatim>\<open>read_csv\<close> (missing)
  forwards to the engine's reader.
\<close>

datatype header_mode = Infer | NoHeader | HeaderRow nat

record reader_config =
  cfg_header :: header_mode
  cfg_names :: "string list option"
  cfg_comment :: "char option"

text \<open>
  Modelled from the spec: the external engine as \<^verbatim>\<open>read_csv\<close> (missing) sees it while
  validating. Given the configuration and the path it reports the columns it
  detects in the file, or fails. A call of the engine is logged, so that "before
  the path is touched" can be stated.
\<close>

type_synonym engine = "reader_config \<Rightarrow> string \<Rightarrow> string + string list"

type_synonym engine_call = "reader_config \<times> string"

text \<open>
  Modelled from the spec: the result of a successful validation by \<^verbatim>\<open>read_csv\<close>
  (missing): the configuration, the column labels, and the positions of the
  selected columns (all of them without a selection).
\<close>

record csv_plan =
  plan_config :: reader_config
  plan_labels :: "string list"
  plan_columns :: "nat list"

text \<open>
  Modelled from the spec: the rule of \<^verbatim>\<open>read_csv\<close> (missing) that the unsupported
  legacy options (duplicate-column mangling, date parsing) fail fast.
\<close>

definition check_legacy :: "csv_args \<Rightarrow> constraint option" where
  "check_legacy a =
     (if \<not> mangle_dupe_cols a then Some (UnsupportedOption ''mangle_dupe_cols'')
      else if parse_dates a then Some (UnsupportedOption ''parse_dates'')
      else None)"

text \<open>
  Modelled from the spec: the header specifier of \<^verbatim>\<open>read_csv\<close> (missing) is
  \<^verbatim>\<open>"infer"\<close>, an explicit row index, or absent; the test expects
  \<^verbatim>\<open>Unknown header argument 1\<close> for \<^verbatim>\<open>header='1'\<close>.
\<close>

fun header_mode_of :: "py_value option \<Rightarrow> constraint + header_mode" where
  "header_mode_of None = Inr NoHeader"
| "header_mode_of (Some (PyInt k)) =
     (if 0 \<le> k then Inr (HeaderRow (nat k)) else Inl (UnknownHeader (PyInt k)))"
| "header_mode_of (Some (PyStr s)) =
     (if s = ''infer'' then Inr Infer else Inl (UnknownHeader (PyStr s)))"
| "header_mode_of (Some v) = Inl (UnknownHeader v)"

text \<open>
  Modelled from the spec: the rule of \<^verbatim>\<open>read_csv\<close> (missing) that the comment marker
  must be exactly one character; a value that is not a string fails as well
  (\<^verbatim>\<open>comment=1\<close> and \<^verbatim>\<open>comment=[1]\<close> in the test).
\<close>

fun comment_char_of :: "py_value option \<Rightarrow> constraint + char option" where
  "comment_char_of None = Inr None"
| "comment_char_of (Some (PyStr [c])) = Inr (Some c)"
| "comment_char_of (Some v) = Inl CommentLength"

text \<open>
  Modelled from the spec: the rule of \<^verbatim>\<open>read_csv\<close> (missing) that column names must
  be unique.
\<close>

definition check_names_unique :: "string list option \<Rightarrow> constraint option" where
  "check_names_unique ns =
     (case ns of
        None \<Rightarrow> None
      | Some l \<Rightarrow> if distinct l then None else Some NonUniqueNames)"

text \<open>
  Modelled from the spec: the selection list of \<^verbatim>\<open>read_csv\<close> (missing) is by position
  or by name; the test expects an error for the mixed list \<^verbatim>\<open>[1, 'amount']\<close>
  (all strings or all integers). The empty list is a selection of no column.
\<close>

fun is_int :: "py_value \<Rightarrow> bool" where
  "is_int (PyInt i) = True"
| "is_int v = False"

fun is_str :: "py_value \<Rightarrow> bool" where
  "is_str (PyStr s) = True"
| "is_str v = False"

definition check_usecols_types :: "py_value list option \<Rightarrow> constraint option" where
  "check_usecols_types us =
     (case us of
        None \<Rightarrow> None
      | Some l \<Rightarrow> if list_all is_int l \<or> list_all is_str l then None else Some UsecolsTypes)"

text \<open>
  Modelled from the spec: the checks of \<^verbatim>\<open>read_csv\<close> (missing) that need the arguments
  only. Section 7 has them raised before any work is submitted: the legacy options
  first (fail fast), then the header specifier, the comment marker, the uniqueness of
  the names and the shape of the selection list. The first violated rule is the
  one reported, as a raised exception does.
\<close>

definition client_checks :: "csv_args \<Rightarrow> constraint + reader_config" where
  "client_checks a =
     (case check_legacy a of
        Some c \<Rightarrow> Inl c
      | None \<Rightarrow>
          (case header_mode_of (header a) of
             Inl c \<Rightarrow> Inl c
           | Inr h \<Rightarrow>
               (case comment_char_of (comment a) of
                  Inl c \<Rightarrow> Inl c
                | Inr cc \<Rightarrow>
                    (case check_names_unique (names a) of
                       Some c \<Rightarrow> Inl c
                     | None \<Rightarrow>
                         (case check_usecols_types (usecols a) of
                            Some c \<Rightarrow> Inl c
                          | None \<Rightarrow>
                              Inr \<lparr>cfg_header = h, cfg_names = names a, cfg_comment = cc\<rparr>)))))"

text \<open>
  Modelled from the spec: the rule of \<^verbatim>\<open>read_csv\<close> (missing) that the length of the
  name list must match the detected column count. The test expects the message to
  contain 3 for three names on the file of two columns; the constraint carries that
  number and the detected count.
\<close>

definition check_names_count :: "string list option \<Rightarrow> string list \<Rightarrow> constraint option" where
  "check_names_count ns cols =
     (case ns of
        None \<Rightarrow> None
      | Some l \<Rightarrow>
          if length l = length cols then None
          else Some (NamesCount (length l) (length cols)))"

text \<open>
  Modelled from the spec: the labels of the columns in \<^verbatim>\<open>read_csv\<close> (missing): the
  explicit names when given, else what the engine detected.
\<close>

definition column_labels :: "string list option \<Rightarrow> string list \<Rightarrow> string list" where
  "column_labels ns cols = (case ns of None \<Rightarrow> cols | Some l \<Rightarrow> l)"

text \<open>
  Modelled from the spec: the rule of \<^verbatim>\<open>read_csv\<close> (missing) that selected columns must
  exist. A position exists when it is at least 0 and below the number of columns, a
  name when it is one of the labels.
\<close>

fun column_exists :: "string list \<Rightarrow> py_value \<Rightarrow> bool" where
  "column_exists labels (PyInt i) = (0 \<le> i \<and> i < int (length labels))"
| "column_exists labels (PyStr s) = (s \<in> set labels)"
| "column_exists labels (PyList l) = False"

text \<open>
  Modelled from the spec: the references of the selection list of \<^verbatim>\<open>read_csv\<close>
  (missing) that do not exist, in the order of the list; the error names them (the
  test expects 3 for \<^verbatim>\<open>usecols=[1, 3]\<close> and \<^verbatim>\<open>col\<close> for \<^verbatim>\<open>usecols=['amount', 'col']\<close>).
\<close>

definition missing_refs :: "py_value list \<Rightarrow> string list \<Rightarrow> py_value list" where
  "missing_refs us labels = filter (\<lambda>r. \<not> column_exists labels r) us"

text \<open>
  Modelled from the spec: the selected columns of \<^verbatim>\<open>read_csv\<close> (missing). Duplicates
  in the selection list are collapsed silently and the empty selection is allowed:
  a column is selected, once, when the list refers to its position or its label.
\<close>

definition selected_columns :: "py_value list option \<Rightarrow> string list \<Rightarrow> nat list" where
  "selected_columns us labels =
     (case us of
        None \<Rightarrow> [0..<length labels]
      | Some l \<Rightarrow>
          filter (\<lambda>k. PyInt (int k) \<in> set l \<or> PyStr (labels ! k) \<in> set l) [0..<length labels])"

text \<open>
  Modelled from the spec: the checks of \<^verbatim>\<open>read_csv\<close> (missing) that need the columns
  the engine detected: the count of the names, then the existence of the selected
  columns.
\<close>

definition column_checks ::
  "reader_config \<Rightarrow> py_value list option \<Rightarrow> string list \<Rightarrow> constraint + csv_plan" where
  "column_checks cfg us cols =
     (case check_names_count (cfg_names cfg) cols of
        Some c \<Rightarrow> Inl c
      | None \<Rightarrow>
          (let labels = column_labels (cfg_names cfg) cols;
               missing = (case us of None \<Rightarrow> [] | Some l \<Rightarrow> missing_refs l labels)
           in if missing \<noteq> [] then Inl (UsecolsMissing missing)
              else Inr \<lparr>plan_config = cfg, plan_labels = labels,
                        plan_columns = selected_columns us labels\<rparr>))"

text \<open>
  Modelled from the spec: \<^verbatim>\<open>read_csv\<close> (missing) as far as validation goes. The result
  is the error raised or the validated plan, together with the calls made to the
  engine.
\<close>

definition read_csv :: "engine \<Rightarrow> csv_args \<Rightarrow> (csv_error + csv_plan) \<times> engine_call list" where
  "read_csv eng a =
     (case client_checks a of
        Inl c \<Rightarrow> (Inl (ValueError c), [])
      | Inr cfg \<Rightarrow>
          (case eng cfg (path a) of
             Inl msg \<Rightarrow> (Inl (EngineError msg), [(cfg, path a)])
           | Inr cols \<Rightarrow>
               (case column_checks cfg (usecols a) cols of
                  Inl c \<Rightarrow> (Inl (ValueError c), [(cfg, path a)])
                | Inr plan \<Rightarrow> (Inr plan, [(cfg, path a)]))))"

text \<open>
  Modelled from the spec: an engine for the file of \<^verbatim>\<open>test_read_csv\<close>, which has the
  two columns \<^verbatim>\<open>name\<close> and \<^verbatim>\<open>amount\<close>; no other path exists.
\<close>

definition sample_engine :: engine where
  "sample_engine cfg p =
     (if p = ''sample.csv'' then Inr [''name'', ''amount''] else Inl ''Path does not exist'')"


text \<open>
  Modelled from the spec: the order in which \<^verbatim>\<open>read_csv\<close> (missing) checks its rules.
  The spec has the legacy options fail fast and says nothing on the order of the
  other rules, and each call of \<^verbatim>\<open>tests/test_csv.py\<close> violates one rule only. The
  definition of \<open>read_csv\<close> above takes one order; here the order is a parameter:
  a list of the steps below, in which the header specifier and the comment marker
  are checked before the engine is asked for the columns (its configuration is
  made of them), and the count of the names and the existence of the selected
  columns after (they need the columns).
\<close>

datatype step =
    CheckHeader
  | CheckComment
  | CheckNamesUnique
  | CheckUsecolsTypes
  | DetectColumns
  | CheckNamesCount
  | CheckUsecolsExist

definition default_order :: "step list" where
  "default_order =
     [CheckHeader, CheckComment, CheckNamesUnique, CheckUsecolsTypes, DetectColumns,
      CheckNamesCount, CheckUsecolsExist]"

definition precedes :: "step \<Rightarrow> step \<Rightarrow> step list \<Rightarrow> bool" where
  "precedes x y order = (x \<noteq> y \<and> y \<in> set (dropWhile (\<lambda>s. s \<noteq> x) order))"

definition well_ordered :: "step list \<Rightarrow> bool" where
  "well_ordered order =
     (distinct order \<and> set order = set default_order \<and>
      precedes CheckHeader DetectColumns order \<and>
      precedes CheckComment DetectColumns order \<and>
      precedes DetectColumns CheckNamesCount order \<and>
      precedes DetectColumns CheckUsecolsExist order)"







section \<open>Properties of the bootstrap\<close>

lemma str_lower_true [simp]: "str_lower ''true'' = ''true''"
  by code_simp

lemma emit_keeps_patch [simp]:
  "spark_df_to_koalas (emit name lvl msg st) = spark_df_to_koalas st"
  by (simp add: emit_def)

lemma attach_usage_logger_keeps_patch [simp]:
  "spark_df_to_koalas (attach_usage_logger env attach st) = spark_df_to_koalas st"
  by (simp add: attach_usage_logger_def split: option.splits)

text \<open>
  Claim C8. When \<^verbatim>\<open>_auto_patch\<close> runs on an interpreter in which
  \<^verbatim>\<open>pyspark.sql.dataframe.DataFrame\<close> has no \<^verbatim>\<open>to_koalas\<close> yet, the method is there
  afterwards if and only if \<^verbatim>\<open>SPARK_KOALAS_AUTOPATCH\<close> is unset, or its value
  lower-cases to \<^verbatim>\<open>true\<close>, \<^verbatim>\<open>1\<close> or \<^verbatim>\<open>enabled\<close>. Neither the other environment variable
  nor the outcome of attaching the usage logger has any influence.
\<close>

theorem auto_patch_gated_by_env:
  "spark_df_to_koalas (auto_patch env attach (st\<lparr>spark_df_to_koalas := False\<rparr>)) =
     (case env ''SPARK_KOALAS_AUTOPATCH'' of
        None \<Rightarrow> True
      | Some v \<Rightarrow> str_lower v = ''true'' \<or> str_lower v = ''1'' \<or> str_lower v = ''enabled'')"
  by (simp add: auto_patch_def getenv_def Let_def split: option.splits)

theorem auto_patch_gated_by_env_witness:
  "spark_df_to_koalas
     (auto_patch [''SPARK_KOALAS_AUTOPATCH'' \<mapsto> ''Enabled''] (\<lambda>m. None)
        (fresh_state\<lparr>spark_df_to_koalas := False\<rparr>))
   \<and> \<not> spark_df_to_koalas
     (auto_patch [''SPARK_KOALAS_AUTOPATCH'' \<mapsto> ''false''] (\<lambda>m. None)
        (fresh_state\<lparr>spark_df_to_koalas := False\<rparr>))"
proof -
  have on: "str_lower ''Enabled'' = ''enabled''"
    by code_simp
  have off: "str_lower ''false'' = ''false''"
    by code_simp
  show ?thesis
    using auto_patch_gated_by_env
            [of "[''SPARK_KOALAS_AUTOPATCH'' \<mapsto> ''Enabled'']" "\<lambda>m. None" fresh_state]
          auto_patch_gated_by_env
            [of "[''SPARK_KOALAS_AUTOPATCH'' \<mapsto> ''false'']" "\<lambda>m. None" fresh_state]
    by (simp add: on off)
qed

text \<open>
  The version check and the import as a whole. \<^verbatim>\<open>ImportError\<close> is raised for an
  unimportable package and for nothing else, and a version that is \<^verbatim>\<open>None\<close> or below
  \<^verbatim>\<open>'2.4'\<close> in string order costs one warning and no more.
\<close>

lemma import_error_iff_unimportable:
  "(\<exists>msg. assert_pyspark_version py st = Inl (ImportError msg)) = (py = Unimportable)"
  by (cases py; simp add: assert_pyspark_version_def split: version_attr.splits)

lemma version_none_warns:
  "assert_pyspark_version (Module AttrNone) st =
     Inr (emit ''root'' WARNING (version_warning ''<unknown version>'') st)"
  by (simp add: assert_pyspark_version_def)

lemma version_old_warns:
  "str_lt v ''2.4'' \<Longrightarrow>
   assert_pyspark_version (Module (AttrStr v)) st = Inr (emit ''root'' WARNING (version_warning v) st)"
  by (simp add: assert_pyspark_version_def)

lemma version_recent_silent:
  "\<not> str_lt v ''2.4'' \<Longrightarrow> assert_pyspark_version (Module (AttrStr v)) st = Inr st"
  by (simp add: assert_pyspark_version_def)

lemma import_koalas_succeeds_with_version:
  "attr \<noteq> NoAttr \<Longrightarrow> \<exists>st. import_koalas env (Module attr) attach = Inr st"
  by (cases attr; simp add: import_koalas_def assert_pyspark_version_def)

lemma str_lt_examples:
  "str_lt ''2.3.4'' ''2.4''" "\<not> str_lt ''2.4.0'' ''2.4''" "\<not> str_lt ''3.0.1'' ''2.4''"
  "str_lt ''10.0.0'' ''2.4''"
  by code_simp+

lemma import_koalas_patch:
  "import_koalas env py attach = Inr st \<Longrightarrow>
   spark_df_to_koalas st =
     (case env ''SPARK_KOALAS_AUTOPATCH'' of
        None \<Rightarrow> True
      | Some v \<Rightarrow> str_lower v \<in> set [''true'', ''1'', ''enabled''])"
  by (auto simp: import_koalas_def assert_pyspark_version_def auto_patch_def getenv_def
        fresh_state_def Let_def
      split: pyspark_import.splits version_attr.splits if_splits option.splits)

text \<open>
  Claim C10. The claim holds for every module whose \<^verbatim>\<open>__version__\<close> is \<^verbatim>\<open>None\<close> or a
  string (the lemmas above). It fails for a module \<^verbatim>\<open>pyspark\<close> that can be imported
  and has no attribute \<^verbatim>\<open>__version__\<close> at all: the two-argument \<^verbatim>\<open>getattr\<close> raises
  \<^verbatim>\<open>AttributeError\<close>, no warning is logged, and the import of the package ends with
  that exception, although the function initialises \<^verbatim>\<open>pyspark_ver = None\<close> and has
  a branch for the unknown version.
\<close>

theorem version_attribute_absent_aborts_import:
  "assert_pyspark_version (Module NoAttr) st = Inl (AttributeError ''__version__'')
   \<and> import_koalas env (Module NoAttr) attach = Inl (AttributeError ''__version__'')"
  by (simp add: import_koalas_def assert_pyspark_version_def)


section \<open>Properties of the validation in read_csv\<close>


lemma comment_char_of_ok_iff:
  "(\<exists>cc. comment_char_of c = Inr cc) = (c = None \<or> (\<exists>ch. c = Some (PyStr [ch])))"
  by (cases c rule: comment_char_of.cases) auto

lemma header_mode_of_ok_iff:
  "(\<exists>h. header_mode_of v = Inr h) =
     (v = None \<or> v = Some (PyStr ''infer'') \<or> (\<exists>k. 0 \<le> k \<and> v = Some (PyInt k)))"
  by (cases v rule: header_mode_of.cases) auto

lemma client_checks_names: "client_checks a = Inr cfg \<Longrightarrow> cfg_names cfg = names a"
  by (auto simp: client_checks_def split: option.splits sum.splits)

text \<open>
  A call passes the checks made on the arguments alone exactly when the legacy
  options have their defaults, the header specifier is recognised, the comment
  marker is absent or one character, the names are unique and the selection list is
  of one kind.
\<close>

lemma client_checks_pass_iff:
  "client_checks a = Inr cfg \<longleftrightarrow>
     mangle_dupe_cols a \<and> \<not> parse_dates a \<and>
     (\<exists>h cc. header_mode_of (header a) = Inr h \<and> comment_char_of (comment a) = Inr cc \<and>
        cfg = \<lparr>cfg_header = h, cfg_names = names a, cfg_comment = cc\<rparr>) \<and>
     (case names a of None \<Rightarrow> True | Some ns \<Rightarrow> distinct ns) \<and>
     (case usecols a of None \<Rightarrow> True | Some us \<Rightarrow> list_all is_int us \<or> list_all is_str us)"
  by (auto simp: client_checks_def check_legacy_def check_names_unique_def check_usecols_types_def
           split: option.splits sum.splits)

text \<open>The calls of \<^verbatim>\<open>test_read_csv\<close> that select columns, on the model.\<close>

lemma test_read_csv_selections:
  "fst (read_csv sample_engine (default_args ''sample.csv'')) =
     Inr \<lparr>plan_config = \<lparr>cfg_header = Infer, cfg_names = None, cfg_comment = None\<rparr>,
          plan_labels = [''name'', ''amount''], plan_columns = [0, 1]\<rparr>"
  "map_sum id plan_columns (fst (read_csv sample_engine
       ((default_args ''sample.csv'')\<lparr>usecols := Some [PyInt 1, PyInt 1]\<rparr>))) = Inr [1]"
  "map_sum id plan_columns (fst (read_csv sample_engine
       ((default_args ''sample.csv'')\<lparr>usecols := Some []\<rparr>))) = Inr []"
  "map_sum id plan_columns (fst (read_csv sample_engine
       ((default_args ''sample.csv'')\<lparr>usecols := Some [PyStr ''amount'', PyStr ''name'']\<rparr>)))
     = Inr [0, 1]"
  "fst (read_csv sample_engine ((default_args ''sample.csv'')\<lparr>header := Some (PyStr ''1'')\<rparr>))
     = Inl (ValueError (UnknownHeader (PyStr ''1'')))"
  "fst (read_csv sample_engine
       ((default_args ''sample.csv'')\<lparr>usecols := Some [PyInt 1, PyStr ''amount'']\<rparr>))
     = Inl (ValueError UsecolsTypes)"
  by code_simp+


subsection \<open>Unsupported legacy options\<close>

text \<open>
  Claim C4. A call of \<^verbatim>\<open>read_csv\<close> with \<^verbatim>\<open>mangle_dupe_cols=False\<close> or
  \<^verbatim>\<open>parse_dates=True\<close> raises a validation error that names such an option
  (\<^verbatim>\<open>mangle_dupe_cols\<close> when that one is not at its default, else \<^verbatim>\<open>parse_dates\<close>),
  whatever the other arguments, the path and the engine are, and the engine has
  not been called: the path is not touched, so it need not exist.
\<close>

theorem legacy_option_fails_fast:
  assumes "\<not> mangle_dupe_cols a \<or> parse_dates a"
  shows "read_csv eng a =
           (Inl (ValueError (UnsupportedOption
                  (if \<not> mangle_dupe_cols a then ''mangle_dupe_cols'' else ''parse_dates''))), [])"
  using assms by (auto simp: read_csv_def client_checks_def check_legacy_def)

theorem legacy_option_fails_fast_witness:
  "sample_engine \<lparr>cfg_header = Infer, cfg_names = None, cfg_comment = None\<rparr> ''path''
     = Inl ''Path does not exist''
   \<and> read_csv sample_engine ((default_args ''path'')\<lparr>mangle_dupe_cols := False\<rparr>)
     = (Inl (ValueError (UnsupportedOption ''mangle_dupe_cols'')), [])
   \<and> read_csv sample_engine ((default_args ''path'')\<lparr>parse_dates := True\<rparr>)
     = (Inl (ValueError (UnsupportedOption ''parse_dates'')), [])"
  using legacy_option_fails_fast
          [of "(default_args ''path'')\<lparr>mangle_dupe_cols := False\<rparr>" sample_engine]
        legacy_option_fails_fast
          [of "(default_args ''path'')\<lparr>parse_dates := True\<rparr>" sample_engine]
  by (simp add: default_args_def sample_engine_def)


subsection \<open>One error for each call\<close>




text \<open>
  Other orders in which the configuration is complete before the engine is asked and
  the columns are known before they are used.
\<close>

lemma well_ordered_examples:
  "well_ordered [CheckNamesUnique, CheckUsecolsTypes, CheckHeader, CheckComment, DetectColumns,
                 CheckNamesCount, CheckUsecolsExist]"
  "well_ordered [CheckUsecolsTypes, CheckNamesUnique, CheckHeader, CheckComment, DetectColumns,
                 CheckNamesCount, CheckUsecolsExist]"
  "well_ordered [CheckHeader, CheckComment, DetectColumns, CheckNamesUnique, CheckNamesCount,
                 CheckUsecolsTypes, CheckUsecolsExist]"
  "well_ordered [CheckHeader, CheckComment, DetectColumns, CheckNamesUnique, CheckUsecolsTypes,
                 CheckUsecolsExist, CheckNamesCount]"
  "well_ordered [CheckHeader, CheckComment, DetectColumns, CheckNamesCount, CheckNamesUnique,
                 CheckUsecolsTypes, CheckUsecolsExist]"
  by (auto simp: well_ordered_def default_order_def precedes_def)





subsection \<open>The comment marker\<close>





subsection \<open>The number of names\<close>





subsection \<open>Unique names and existing columns\<close>




end
